theory Spec2Isabelle
  imports Complex_Main "HOL-Library.Word" "HOL-Library.Multiset"
begin

section \<open>Go values\<close>

subsection \<open>Errors\<close>

text \<open>
  The Go code builds every error with \<^verbatim>\<open>fmt.Errorf\<close>: either a plain message, or a message
  that wraps another error with \<^verbatim>\<open>%w\<close>. The repositories compare the error of a scan with
  \<^verbatim>\<open>sql.ErrNoRows\<close>. \<open>DriverError\<close> is any other error of \<^verbatim>\<open>database/sql\<close> or
  of the MySQL driver; its text is the driver's, for which the texts below stand.
\<close>

datatype error =
    ErrNoRows
  | DriverError string
  | Errorf string
  | Wrapf string error


subsection \<open>Time\<close>

text \<open>
  A \<^verbatim>\<open>time.Time\<close> is an instant: nanoseconds on the wall clock. \<^verbatim>\<open>Before\<close> is \<open><\<close> on
  instants. The readings of \<^verbatim>\<open>time.Now()\<close> are inputs of the functions that take them.
\<close>

type_synonym time = int

subsection \<open>float64\<close>

text \<open>
  A \<^verbatim>\<open>float64\<close> is an IEEE 754 binary64 value: a finite value is the rational number
  it denotes (53 significant bits, exponents from \<open>-1074\<close> to \<open>971\<close> on an integer
  significand), and there are the two infinities and NaN. The two zeros are one value
  here: Go's \<^verbatim>\<open>==\<close> and \<^verbatim>\<open><\<close> do not tell them apart, and the code modelled never
  divides by a computed value.
\<close>

datatype float64 = Finite rat | PosInf | NegInf | NaN

text \<open>The number of binary digits of a positive integer.\<close>

function bitlen :: "int \<Rightarrow> int" where
  "bitlen n = (if n \<le> 0 then 0 else 1 + bitlen (n div 2))"
  by pat_completeness auto
termination
  by (relation "measure nat") auto

declare bitlen.simps [simp del]

definition pow2 :: "int \<Rightarrow> rat" where
  "pow2 e = (if 0 \<le> e then 2 ^ nat e else 1 / 2 ^ nat (- e))"

text \<open>
  For \<open>a > 0\<close>, the exponent \<open>e\<close> with \<open>2 ^ e \<le> a < 2 ^ (e + 1)\<close>: read off the
  integer part of \<open>a\<close> when \<open>1 \<le> a\<close>, and off the integer part of \<open>1 / a\<close> otherwise.
\<close>

definition binade :: "rat \<Rightarrow> int" where
  "binade a =
     (if 1 \<le> a then bitlen \<lfloor>a\<rfloor> - 1
      else let k = bitlen \<lfloor>1 / a\<rfloor> in if pow2 (1 - k) \<le> a then 1 - k else - k)"

text \<open>The nearest integer, a tie going to the even one.\<close>

definition round_half_even :: "rat \<Rightarrow> int" where
  "round_half_even x =
     (let f = \<lfloor>x\<rfloor>; d = x - of_int f
      in if d < 1 / 2 then f
         else if 1 / 2 < d then f + 1
         else if even f then f else f + 1)"

text \<open>
  Rounding of an exact result to binary64, to nearest, ties to even: the unit in the last
  place is \<open>2 ^ (e - 52)\<close> in the binade \<open>e\<close>, and \<open>2 ^ (-1074)\<close> below \<open>2 ^ (-1022)\<close>
  (subnormal values); a result that rounds to \<open>2 ^ 1024\<close> overflows to an infinity.
\<close>

definition round_double :: "rat \<Rightarrow> float64" where
  "round_double x =
     (if x = 0 then Finite 0
      else
        let a = \<bar>x\<bar>;
            e = max (binade a) (- 1022);
            u = pow2 (e - 52);
            y = of_int (round_half_even (a / u)) * u
        in if pow2 1024 \<le> y then (if 0 < x then PosInf else NegInf)
           else Finite (if 0 < x then y else - y))"

text \<open>
  The arithmetic of Go on \<^verbatim>\<open>float64\<close>: each operation rounds its exact result (no
  operation of the source is fused with another).
\<close>

fun f64_mul :: "float64 \<Rightarrow> float64 \<Rightarrow> float64" where
  "f64_mul NaN _ = NaN"
| "f64_mul _ NaN = NaN"
| "f64_mul (Finite a) (Finite b) = round_double (a * b)"
| "f64_mul (Finite a) PosInf = (if a = 0 then NaN else if 0 < a then PosInf else NegInf)"
| "f64_mul (Finite a) NegInf = (if a = 0 then NaN else if 0 < a then NegInf else PosInf)"
| "f64_mul PosInf (Finite b) = (if b = 0 then NaN else if 0 < b then PosInf else NegInf)"
| "f64_mul NegInf (Finite b) = (if b = 0 then NaN else if 0 < b then NegInf else PosInf)"
| "f64_mul PosInf PosInf = PosInf"
| "f64_mul PosInf NegInf = NegInf"
| "f64_mul NegInf PosInf = NegInf"
| "f64_mul NegInf NegInf = PosInf"

fun f64_add :: "float64 \<Rightarrow> float64 \<Rightarrow> float64" where
  "f64_add NaN _ = NaN"
| "f64_add _ NaN = NaN"
| "f64_add (Finite a) (Finite b) = round_double (a + b)"
| "f64_add (Finite a) PosInf = PosInf"
| "f64_add (Finite a) NegInf = NegInf"
| "f64_add PosInf (Finite b) = PosInf"
| "f64_add NegInf (Finite b) = NegInf"
| "f64_add PosInf PosInf = PosInf"
| "f64_add PosInf NegInf = NaN"
| "f64_add NegInf PosInf = NaN"
| "f64_add NegInf NegInf = NegInf"

text \<open>Division; a quotient by zero takes the sign it has for the positive zero.\<close>

fun f64_div :: "float64 \<Rightarrow> float64 \<Rightarrow> float64" where
  "f64_div NaN _ = NaN"
| "f64_div _ NaN = NaN"
| "f64_div (Finite a) (Finite b) =
     (if b = 0 then (if a = 0 then NaN else if 0 < a then PosInf else NegInf)
      else round_double (a / b))"
| "f64_div (Finite a) PosInf = Finite 0"
| "f64_div (Finite a) NegInf = Finite 0"
| "f64_div PosInf (Finite b) = (if 0 \<le> b then PosInf else NegInf)"
| "f64_div NegInf (Finite b) = (if 0 \<le> b then NegInf else PosInf)"
| "f64_div PosInf PosInf = NaN"
| "f64_div PosInf NegInf = NaN"
| "f64_div NegInf PosInf = NaN"
| "f64_div NegInf NegInf = NaN"


text \<open>
  \<^verbatim>\<open>math.Round\<close> of the Go library: the nearest integer, half away from zero; infinities
  and NaN are returned as they are.
\<close>

fun math_Round :: "float64 \<Rightarrow> float64" where
  "math_Round (Finite r) = Finite (of_int (if 0 \<le> r then \<lfloor>r + 1 / 2\<rfloor> else - \<lfloor>- r + 1 / 2\<rfloor>))"
| "math_Round x = x"

text \<open>A decimal literal of the source is the binary64 value nearest to it.\<close>

definition f64_lit :: "rat \<Rightarrow> float64" where
  "f64_lit r = round_double r"


section \<open>Models\<close>

text \<open>
  The structs of package \<^verbatim>\<open>models\<close>. Go's \<^verbatim>\<open>uint\<close> identifiers are natural numbers (the
  code never computes with them), \<^verbatim>\<open>int\<close> is 64 bits wide, a pointer field is an option.
  Field names carry the initials of their struct.
\<close>

record Company =
  c_ID :: nat
  c_CorporateName :: string
  c_Representative :: string
  c_PhoneNumber :: string
  c_PostalCode :: string
  c_Address :: string
  c_CreatedAt :: time
  c_UpdatedAt :: time

record User =
  u_ID :: nat
  u_CompanyID :: nat
  u_FullName :: string
  u_Email :: string
  u_Password :: string
  u_CreatedAt :: time
  u_UpdatedAt :: time
  u_Company :: "Company option"

record BusinessPartner =
  bp_ID :: nat
  bp_CompanyID :: nat
  bp_CorporateName :: string
  bp_Representative :: string
  bp_PhoneNumber :: string
  bp_PostalCode :: string
  bp_Address :: string
  bp_CreatedAt :: time
  bp_UpdatedAt :: time

type_synonym InvoiceStatus = string

definition InvoiceStatusUnprocessed :: InvoiceStatus where
  "InvoiceStatusUnprocessed = ''unprocessed''"





record Invoice =
  i_ID :: nat
  i_CompanyID :: nat
  i_BusinessPartnerID :: nat
  i_IssueDate :: time
  i_PaymentAmount :: float64
  i_Fee :: float64
  i_FeeRate :: float64
  i_ConsumptionTax :: float64
  i_ConsumptionTaxRate :: float64
  i_InvoiceAmount :: float64
  i_PaymentDueDate :: time
  i_Status :: InvoiceStatus
  i_CreatedAt :: time
  i_UpdatedAt :: time
  i_Company :: "Company option"
  i_BusinessPartner :: "BusinessPartner option"

record CreateInvoiceRequest =
  cr_BusinessPartnerID :: nat
  cr_PaymentAmount :: float64
  cr_PaymentDueDate :: time

record GetInvoicesRequest =
  gr_StartDate :: "time option"
  gr_EndDate :: "time option"
  gr_Status :: "string option"
  gr_Page :: "64 word"
  gr_Limit :: "64 word"

text \<open>
  \<^verbatim>\<open>ValidatePaymentDueDate\<close>, with the reading of the clock as \<open>now\<close>; \<open>Inr ()\<close> is the
  \<^verbatim>\<open>nil\<close> error.
\<close>

definition ValidatePaymentDueDate :: "time \<Rightarrow> time \<Rightarrow> error + unit" where
  "ValidatePaymentDueDate now dueDate =
     (if dueDate < now then Inl (Errorf ''payment due date must be in the future'')
      else Inr ())"

text \<open>\<^verbatim>\<open>CreateInvoiceRequest.Validate\<close>.\<close>

definition CreateInvoiceRequest_Validate :: "time \<Rightarrow> CreateInvoiceRequest \<Rightarrow> error + unit" where
  "CreateInvoiceRequest_Validate now req =
     (case ValidatePaymentDueDate now (cr_PaymentDueDate req) of
        Inl err \<Rightarrow> Inl err
      | Inr _ \<Rightarrow> Inr ())"


section \<open>Repository\<close>

text \<open>
  The database behind \<^verbatim>\<open>MySQLRepository\<close>: the four tables the code reads and writes,
  each a list of rows in insertion order, and the next \<^verbatim>\<open>AUTO_INCREMENT\<close> value of the
  two tables the code inserts into. A row holds the values bound to the \<^verbatim>\<open>INSERT\<close>
  statement. Of the schema, the foreign keys are modelled; the conversion of a value to
  its column type is not. A statement fails on a violated foreign key and for no other
  reason; \<^verbatim>\<open>LastInsertId\<close> and the scan of a row that is there do not fail, so their
  error branches have no counterpart here.
\<close>

record db =
  companies :: "Company list"
  users :: "User list"
  business_partners :: "BusinessPartner list"
  invoices :: "Invoice list"
  business_partners_seq :: nat
  invoices_seq :: nat

text \<open>\<^verbatim>\<open>QueryRow(...).Scan(...)\<close>: the first row of the result, or \<^verbatim>\<open>sql.ErrNoRows\<close>.\<close>

definition QueryRow :: "'a list \<Rightarrow> error + 'a" where
  "QueryRow rows = (case rows of [] \<Rightarrow> Inl ErrNoRows | row # _ \<Rightarrow> Inr row)"

definition MySQLRepository_GetUserByID :: "db \<Rightarrow> nat \<Rightarrow> error + User" where
  "MySQLRepository_GetUserByID r id' =
     (case QueryRow [u\<lparr>u_Company := Some c\<rparr>.
                      u \<leftarrow> users r, c \<leftarrow> companies r, u_CompanyID u = c_ID c, u_ID u = id'] of
        Inl err \<Rightarrow>
          if err = ErrNoRows then Inl (Errorf ''user not found'')
          else Inl (Wrapf ''failed to get user'' err)
      | Inr user \<Rightarrow> Inr user)"

definition MySQLRepository_GetBusinessPartnerByID :: "db \<Rightarrow> nat \<Rightarrow> error + BusinessPartner" where
  "MySQLRepository_GetBusinessPartnerByID r id' =
     (case QueryRow (filter (\<lambda>bp. bp_ID bp = id') (business_partners r)) of
        Inl err \<Rightarrow>
          if err = ErrNoRows then Inl (Errorf ''business partner not found'')
          else Inl (Wrapf ''failed to get business partner'' err)
      | Inr partner \<Rightarrow> Inr partner)"

text \<open>
  \<^verbatim>\<open>CreateBusinessPartner\<close> of the repository: the statement fails when the foreign key
  \<^verbatim>\<open>company_id\<close> names no company; otherwise the row is appended and the struct receives
  its identifier and timestamps. \<open>now\<close> is the repository's reading of the clock.
\<close>

definition MySQLRepository_CreateBusinessPartner ::
  "db \<Rightarrow> time \<Rightarrow> BusinessPartner \<Rightarrow> db \<times> (error + BusinessPartner)" where
  "MySQLRepository_CreateBusinessPartner r now partner =
     (if bp_CompanyID partner \<notin> c_ID ` set (companies r)
      then (r, Inl (Wrapf ''failed to create business partner''
                     (DriverError ''foreign key constraint fails'')))
      else
        let partner' = partner\<lparr>bp_ID := business_partners_seq r,
                                bp_CreatedAt := now, bp_UpdatedAt := now\<rparr>
        in (r\<lparr>business_partners := business_partners r @ [partner'],
               business_partners_seq := Suc (business_partners_seq r)\<rparr>,
            Inr partner'))"

text \<open>
  \<^verbatim>\<open>CreateInvoice\<close> of the repository. The row has the columns of the table: the joined
  \<^verbatim>\<open>Company\<close> and \<^verbatim>\<open>BusinessPartner\<close> of the struct are not stored.
\<close>

definition MySQLRepository_CreateInvoice ::
  "db \<Rightarrow> time \<Rightarrow> Invoice \<Rightarrow> db \<times> (error + Invoice)" where
  "MySQLRepository_CreateInvoice r now invoice =
     (if i_CompanyID invoice \<notin> c_ID ` set (companies r)
         \<or> i_BusinessPartnerID invoice \<notin> bp_ID ` set (business_partners r)
      then (r, Inl (Wrapf ''failed to create invoice''
                     (DriverError ''foreign key constraint fails'')))
      else
        let invoice' = invoice\<lparr>i_ID := invoices_seq r, i_CreatedAt := now, i_UpdatedAt := now\<rparr>
        in (r\<lparr>invoices := invoices r @ [invoice'\<lparr>i_Company := None, i_BusinessPartner := None\<rparr>],
               invoices_seq := Suc (invoices_seq r)\<rparr>,
            Inr invoice'))"

text \<open>
  The rows of \<^verbatim>\<open>FROM invoices i JOIN companies c ON i.company_id = c.id JOIN
  business_partners bp ON i.business_partner_id = bp.id\<close>, each scanned into an
  \<^verbatim>\<open>Invoice\<close> with its company and business partner.
\<close>

definition invoice_rows :: "db \<Rightarrow> Invoice list" where
  "invoice_rows r =
     [i\<lparr>i_Company := Some c, i_BusinessPartner := Some bp\<rparr>.
        i \<leftarrow> invoices r, c \<leftarrow> companies r, bp \<leftarrow> business_partners r,
        i_CompanyID i = c_ID c, i_BusinessPartnerID i = bp_ID bp]"

definition MySQLRepository_GetInvoiceByID :: "db \<Rightarrow> nat \<Rightarrow> error + Invoice" where
  "MySQLRepository_GetInvoiceByID r id' =
     (case QueryRow (filter (\<lambda>i. i_ID i = id') (invoice_rows r)) of
        Inl err \<Rightarrow>
          if err = ErrNoRows then Inl (Errorf ''invoice not found'')
          else Inl (Wrapf ''failed to get invoice'' err)
      | Inr invoice \<Rightarrow> Inr invoice)"


subsection \<open>The invoice listing statement\<close>

text \<open>
  \<^verbatim>\<open>GetInvoicesByCompanyID\<close> builds its statement clause by clause. The statement is kept
  as the clauses it has: \<^verbatim>\<open>WHERE i.company_id = ?\<close> with its argument, the optional
  \<^verbatim>\<open>AND i.payment_due_date >= ?\<close>, \<^verbatim>\<open>AND i.payment_due_date <= ?\<close> and
  \<^verbatim>\<open>AND i.status = ?\<close> with theirs, the fixed \<^verbatim>\<open>ORDER BY i.payment_due_date DESC\<close>, and
  the optional \<^verbatim>\<open>LIMIT ?\<close> and \<^verbatim>\<open>OFFSET ?\<close> with theirs (Go \<^verbatim>\<open>int\<close> values).
\<close>

record invoices_query =
  q_company_id :: nat
  q_start_date :: "time option"
  q_end_date :: "time option"
  q_status :: "string option"
  q_limit :: "64 word option"
  q_offset :: "64 word option"

definition invoices_statement :: "nat \<Rightarrow> GetInvoicesRequest \<Rightarrow> invoices_query" where
  "invoices_statement companyID req =
     \<lparr>q_company_id = companyID,
      q_start_date = gr_StartDate req,
      q_end_date = gr_EndDate req,
      q_status = gr_Status req,
      q_limit = (if 0 <s gr_Limit req then Some (gr_Limit req) else None),
      q_offset = (if 0 <s gr_Limit req \<and> 1 <s gr_Page req
                  then Some ((gr_Page req - 1) * gr_Limit req) else None)\<rparr>"

text \<open>
  What the statement means is the database's part. The \<^verbatim>\<open>WHERE\<close> clause is the
  conjunction of its conditions (\<^verbatim>\<open>=\<close> on the status is equality of strings here), the
  \<^verbatim>\<open>ORDER BY\<close> clause asks for rows in descending order of \<^verbatim>\<open>payment_due_date\<close> and
  for nothing else, and \<^verbatim>\<open>LIMIT\<close> with \<^verbatim>\<open>OFFSET\<close> cut a window out of the ordered rows.
\<close>

definition where_clause :: "invoices_query \<Rightarrow> Invoice \<Rightarrow> bool" where
  "where_clause q i \<longleftrightarrow>
     i_CompanyID i = q_company_id q
     \<and> (case q_start_date q of None \<Rightarrow> True | Some d \<Rightarrow> d \<le> i_PaymentDueDate i)
     \<and> (case q_end_date q of None \<Rightarrow> True | Some d \<Rightarrow> i_PaymentDueDate i \<le> d)
     \<and> (case q_status q of None \<Rightarrow> True | Some s \<Rightarrow> i_Status i = s)"


definition limit_offset :: "invoices_query \<Rightarrow> Invoice list \<Rightarrow> Invoice list" where
  "limit_offset q rows =
     (case q_limit q of
        None \<Rightarrow> rows
      | Some l \<Rightarrow>
          take (nat (sint l))
            (drop (case q_offset q of None \<Rightarrow> 0 | Some off \<Rightarrow> nat (sint off)) rows))"

definition offset_not_negative :: "invoices_query \<Rightarrow> bool" where
  "offset_not_negative q = (case q_offset q of None \<Rightarrow> True | Some off \<Rightarrow> 0 \<le> sint off)"


text \<open>
  Two engines: one keeps rows with equal due dates in the order of the table, the other
  reverses them. Both refuse a negative offset argument.
\<close>

definition table_order :: "Invoice list \<Rightarrow> Invoice list" where
  "table_order rows = sort_key (\<lambda>i. - i_PaymentDueDate i) rows"


definition engine_with ::
  "(Invoice list \<Rightarrow> Invoice list) \<Rightarrow> invoices_query \<Rightarrow> Invoice list \<Rightarrow> error + Invoice list" where
  "engine_with ord q rows =
     (if offset_not_negative q then Inr (limit_offset q (ord (filter (where_clause q) rows)))
      else Inl (DriverError ''negative OFFSET''))"

text \<open>
  \<^verbatim>\<open>GetInvoicesByCompanyID\<close>: the statement is built and sent, and the rows of the answer
  are scanned in order and appended.
\<close>

definition MySQLRepository_GetInvoicesByCompanyID ::
  "(invoices_query \<Rightarrow> Invoice list \<Rightarrow> error + Invoice list)
     \<Rightarrow> db \<Rightarrow> nat \<Rightarrow> GetInvoicesRequest \<Rightarrow> error + Invoice list" where
  "MySQLRepository_GetInvoicesByCompanyID exec r companyID req =
     (case exec (invoices_statement companyID req) (invoice_rows r) of
        Inl err \<Rightarrow> Inl (Wrapf ''failed to get invoices'' err)
      | Inr rows \<Rightarrow> Inr rows)"

section \<open>Service\<close>

text \<open>The zero value of \<^verbatim>\<open>time.Time\<close>: January 1 of year 1, in nanoseconds before 1970.\<close>

definition zero_time :: time where
  "zero_time = - 62135596800000000000"

text \<open>
  \<^verbatim>\<open>InvoiceService.CreateInvoice\<close>. \<open>now\<close> is the service's reading of the clock and
  \<open>stamp\<close> the repository's. The result is the database after the call and what the
  call returns.
\<close>

definition InvoiceService_CreateInvoice ::
  "db \<Rightarrow> time \<Rightarrow> time \<Rightarrow> nat \<Rightarrow> CreateInvoiceRequest \<Rightarrow> db \<times> (error + Invoice)" where
  "InvoiceService_CreateInvoice r now stamp userID req =
     (case MySQLRepository_GetUserByID r userID of
        Inl err \<Rightarrow> (r, Inl (Wrapf ''user not found'' err))
      | Inr user \<Rightarrow>
         (case MySQLRepository_GetBusinessPartnerByID r (cr_BusinessPartnerID req) of
            Inl err \<Rightarrow> (r, Inl (Wrapf ''business partner not found'' err))
          | Inr partner \<Rightarrow>
             if bp_CompanyID partner \<noteq> u_CompanyID user
             then (r, Inl (Errorf ''business partner does not belong to your company''))
             else
               let invoice =
                     \<lparr>i_ID = 0,
                      i_CompanyID = u_CompanyID user,
                      i_BusinessPartnerID = cr_BusinessPartnerID req,
                      i_IssueDate = now,
                      i_PaymentAmount = cr_PaymentAmount req,
                      i_Fee = Finite 0,
                      i_FeeRate = f64_lit (4 / 100),
                      i_ConsumptionTax = Finite 0,
                      i_ConsumptionTaxRate = f64_lit (10 / 100),
                      i_InvoiceAmount = Finite 0,
                      i_PaymentDueDate = cr_PaymentDueDate req,
                      i_Status = InvoiceStatusUnprocessed,
                      i_CreatedAt = zero_time,
                      i_UpdatedAt = zero_time,
                      i_Company = None,
                      i_BusinessPartner = None\<rparr>;
                   invoice = invoice\<lparr>i_Fee := f64_mul (i_PaymentAmount invoice) (i_FeeRate invoice)\<rparr>;
                   invoice = invoice\<lparr>i_ConsumptionTax :=
                               f64_mul (i_Fee invoice) (i_ConsumptionTaxRate invoice)\<rparr>;
                   invoice = invoice\<lparr>i_InvoiceAmount :=
                               f64_div
                                 (math_Round
                                    (f64_mul
                                       (f64_add (f64_add (i_PaymentAmount invoice) (i_Fee invoice))
                                          (i_ConsumptionTax invoice))
                                       (Finite 100)))
                                 (Finite 100)\<rparr>
               in case MySQLRepository_CreateInvoice r stamp invoice of
                    (r', Inl err) \<Rightarrow> (r', Inl (Wrapf ''failed to create invoice'' err))
                  | (r', Inr invoice') \<Rightarrow>
                      (case MySQLRepository_GetInvoiceByID r' (i_ID invoice') of
                         Inl err \<Rightarrow> (r', Inl (Wrapf ''failed to get created invoice'' err))
                       | Inr createdInvoice \<Rightarrow> (r', Inr createdInvoice))))"

text \<open>
  \<^verbatim>\<open>InvoiceService.GetInvoices\<close>. The request is a pointer and the pagination defaults are
  written into it: the result is the request as the call leaves it and what the call
  returns.
\<close>

definition InvoiceService_GetInvoices ::
  "(invoices_query \<Rightarrow> Invoice list \<Rightarrow> error + Invoice list)
     \<Rightarrow> db \<Rightarrow> nat \<Rightarrow> GetInvoicesRequest \<Rightarrow> GetInvoicesRequest \<times> (error + Invoice list)" where
  "InvoiceService_GetInvoices exec r userID req =
     (case MySQLRepository_GetUserByID r userID of
        Inl err \<Rightarrow> (req, Inl (Wrapf ''user not found'' err))
      | Inr user \<Rightarrow>
          let req = (if gr_Page req <s 1 then req\<lparr>gr_Page := 1\<rparr> else req);
              req = (if gr_Limit req <s 1 then req\<lparr>gr_Limit := 20\<rparr> else req);
              req = (if 100 <s gr_Limit req then req\<lparr>gr_Limit := 100\<rparr> else req)
          in case MySQLRepository_GetInvoicesByCompanyID exec r (u_CompanyID user) req of
               Inl err \<Rightarrow> (req, Inl (Wrapf ''failed to get invoices'' err))
             | Inr invoices' \<Rightarrow> (req, Inr invoices'))"


text \<open>
  \<^verbatim>\<open>InvoiceService.CreateBusinessPartner\<close>. The partner is a pointer: the result is the
  database after the call, and the error or the partner as the call leaves it.
\<close>

definition InvoiceService_CreateBusinessPartner ::
  "db \<Rightarrow> time \<Rightarrow> nat \<Rightarrow> BusinessPartner \<Rightarrow> db \<times> (error + BusinessPartner)" where
  "InvoiceService_CreateBusinessPartner r stamp userID partner =
     (case MySQLRepository_GetUserByID r userID of
        Inl err \<Rightarrow> (r, Inl (Wrapf ''user not found'' err))
      | Inr user \<Rightarrow>
          let partner = partner\<lparr>bp_CompanyID := u_CompanyID user\<rparr>
          in case MySQLRepository_CreateBusinessPartner r stamp partner of
               (r', Inl err) \<Rightarrow> (r', Inl (Wrapf ''failed to create business partner'' err))
             | (r', Inr partner') \<Rightarrow> (r', Inr partner'))"

section \<open>Example data\<close>

text \<open>
  A database with two companies, one user and one business partner for each, and four
  invoices: one of company 2 and three of company 1, two of these with equal due dates.
\<close>

definition example_company :: "nat \<Rightarrow> Company" where
  "example_company n =
     \<lparr>c_ID = n, c_CorporateName = ''Company'', c_Representative = ''Representative'',
      c_PhoneNumber = ''03-1234-5678'', c_PostalCode = ''100-0001'', c_Address = ''Tokyo'',
      c_CreatedAt = 0, c_UpdatedAt = 0\<rparr>"

definition example_user :: "nat \<Rightarrow> nat \<Rightarrow> User" where
  "example_user n c =
     \<lparr>u_ID = n, u_CompanyID = c, u_FullName = ''User'', u_Email = ''user@example.com'',
      u_Password = ''hash'', u_CreatedAt = 0, u_UpdatedAt = 0, u_Company = None\<rparr>"

definition example_partner :: "nat \<Rightarrow> nat \<Rightarrow> BusinessPartner" where
  "example_partner n c =
     \<lparr>bp_ID = n, bp_CompanyID = c, bp_CorporateName = ''Partner'',
      bp_Representative = ''Representative'', bp_PhoneNumber = ''03-9876-5432'',
      bp_PostalCode = ''101-0001'', bp_Address = ''Tokyo'', bp_CreatedAt = 0, bp_UpdatedAt = 0\<rparr>"

definition example_invoice :: "nat \<Rightarrow> nat \<Rightarrow> nat \<Rightarrow> time \<Rightarrow> InvoiceStatus \<Rightarrow> Invoice" where
  "example_invoice n c p due st =
     \<lparr>i_ID = n, i_CompanyID = c, i_BusinessPartnerID = p, i_IssueDate = 0,
      i_PaymentAmount = Finite 10000, i_Fee = Finite 400, i_FeeRate = f64_lit (4 / 100),
      i_ConsumptionTax = Finite 40, i_ConsumptionTaxRate = f64_lit (10 / 100),
      i_InvoiceAmount = Finite 10440, i_PaymentDueDate = due, i_Status = st,
      i_CreatedAt = 0, i_UpdatedAt = 0, i_Company = None, i_BusinessPartner = None\<rparr>"

definition example_db :: db where
  "example_db =
     \<lparr>companies = [example_company 1, example_company 2],
      users = [example_user 1 1, example_user 2 2],
      business_partners = [example_partner 1 1, example_partner 2 2],
      invoices = [example_invoice 1 1 1 100 ''unprocessed'',
                  example_invoice 2 2 2 200 ''unprocessed'',
                  example_invoice 3 1 1 100 ''paid'',
                  example_invoice 4 1 1 300 ''unprocessed''],
      business_partners_seq = 3,
      invoices_seq = 5\<rparr>"

text \<open>User 1 of the example, as \<^verbatim>\<open>GetUserByID\<close> returns it.\<close>

definition example_acting_user :: User where
  "example_acting_user = (example_user 1 1)\<lparr>u_Company := Some (example_company 1)\<rparr>"

text \<open>The rows of the example's invoices, as the joins return them.\<close>

definition example_row :: "nat \<Rightarrow> nat \<Rightarrow> time \<Rightarrow> InvoiceStatus \<Rightarrow> Invoice" where
  "example_row n c due st =
     (example_invoice n c c due st)
       \<lparr>i_Company := Some (example_company c), i_BusinessPartner := Some (example_partner c c)\<rparr>"

text \<open>Requests: to create an invoice for an amount, and to list invoices.\<close>

definition example_create :: "nat \<Rightarrow> float64 \<Rightarrow> CreateInvoiceRequest" where
  "example_create partner amount =
     \<lparr>cr_BusinessPartnerID = partner, cr_PaymentAmount = amount, cr_PaymentDueDate = 500\<rparr>"

definition example_list ::
  "time option \<Rightarrow> time option \<Rightarrow> string option \<Rightarrow> 64 word \<Rightarrow> 64 word \<Rightarrow> GetInvoicesRequest" where
  "example_list start end' st page limit =
     \<lparr>gr_StartDate = start, gr_EndDate = end', gr_Status = st, gr_Page = page, gr_Limit = limit\<rparr>"

section \<open>Properties\<close>

subsection \<open>Evaluation of the example\<close>

lemmas example_defs = example_db_def example_company_def example_user_def example_partner_def
  example_invoice_def example_acting_user_def example_row_def example_create_def example_list_def

lemmas lookup_defs = MySQLRepository_GetUserByID_def MySQLRepository_GetBusinessPartnerByID_def
  MySQLRepository_GetInvoiceByID_def invoice_rows_def QueryRow_def

lemma example_GetUserByID:
  "MySQLRepository_GetUserByID example_db 1 = Inr example_acting_user"
  by (simp add: lookup_defs example_defs)


lemma example_GetBusinessPartnerByID_2:
  "MySQLRepository_GetBusinessPartnerByID example_db 2 = Inr (example_partner 2 2)"
  by (simp add: lookup_defs example_defs)

subsection \<open>The due date check\<close>

lemma ValidatePaymentDueDate_past:
  "dueDate < now \<Longrightarrow>
     ValidatePaymentDueDate now dueDate = Inl (Errorf ''payment due date must be in the future'')"
  by (simp add: ValidatePaymentDueDate_def)

lemma ValidatePaymentDueDate_future:
  "now < dueDate \<Longrightarrow> ValidatePaymentDueDate now dueDate = Inr ()"
  by (simp add: ValidatePaymentDueDate_def)

text \<open>
  C6. The claim is that a due date that is not strictly after the current time is rejected,
  a due date equal to the current time included. The check is \<^verbatim>\<open>dueDate.Before(time.Now())\<close>:
  a due date equal to the reading of the clock is not before it, and both
  \<^verbatim>\<open>ValidatePaymentDueDate\<close> and \<^verbatim>\<open>CreateInvoiceRequest.Validate\<close> return no error for it.
\<close>

theorem ValidatePaymentDueDate_accepts_now:
  "ValidatePaymentDueDate now now = Inr ()
   \<and> CreateInvoiceRequest_Validate now (req\<lparr>cr_PaymentDueDate := now\<rparr>) = Inr ()"
  by (simp add: ValidatePaymentDueDate_def CreateInvoiceRequest_Validate_def)

subsection \<open>Creating an invoice against another company's business partner\<close>

text \<open>
  C2. When the acting user exists, the business partner named by the request exists,
  and the partner's company is not the user's, \<^verbatim>\<open>CreateInvoice\<close> returns the error
  \<^verbatim>\<open>business partner does not belong to your company\<close> (the error the specification calls
  Forbidden), and the database after the call is the database before it: no invoice is
  persisted.
\<close>

theorem CreateInvoice_foreign_partner:
  assumes "MySQLRepository_GetUserByID r userID = Inr user"
    and "MySQLRepository_GetBusinessPartnerByID r (cr_BusinessPartnerID req) = Inr partner"
    and "bp_CompanyID partner \<noteq> u_CompanyID user"
  shows "InvoiceService_CreateInvoice r now stamp userID req =
           (r, Inl (Errorf ''business partner does not belong to your company''))"
  using assms by (simp add: InvoiceService_CreateInvoice_def)

theorem CreateInvoice_foreign_partner_witness:
  "MySQLRepository_GetUserByID example_db 1 = Inr example_acting_user
   \<and> MySQLRepository_GetBusinessPartnerByID example_db 2 = Inr (example_partner 2 2)
   \<and> bp_CompanyID (example_partner 2 2) \<noteq> u_CompanyID example_acting_user
   \<and> InvoiceService_CreateInvoice example_db 10 11 1
        \<lparr>cr_BusinessPartnerID = 2, cr_PaymentAmount = Finite 10000, cr_PaymentDueDate = 500\<rparr>
       = (example_db, Inl (Errorf ''business partner does not belong to your company''))"
proof -
  have p: "MySQLRepository_GetBusinessPartnerByID example_db
             (cr_BusinessPartnerID
                \<lparr>cr_BusinessPartnerID = 2, cr_PaymentAmount = Finite 10000,
                   cr_PaymentDueDate = 500\<rparr>)
           = Inr (example_partner 2 2)"
    by (simp add: example_GetBusinessPartnerByID_2)
  have d: "bp_CompanyID (example_partner 2 2) \<noteq> u_CompanyID example_acting_user"
    by (simp add: example_defs)
  show ?thesis
    using CreateInvoice_foreign_partner [OF example_GetUserByID p d, of 10 11]
      example_GetUserByID example_GetBusinessPartnerByID_2 d
    by simp
qed

subsection \<open>Rows and lookups\<close>

lemma QueryRow_Inr_mem: "QueryRow rows = Inr row \<Longrightarrow> row \<in> set rows"
  by (cases rows) (auto simp: QueryRow_def)

lemma GetUserByID_company:
  assumes "MySQLRepository_GetUserByID r userID = Inr user"
  shows "u_CompanyID user \<in> c_ID ` set (companies r)"
proof -
  from assms have "user \<in> set [u\<lparr>u_Company := Some c\<rparr>.
      u \<leftarrow> users r, c \<leftarrow> companies r, u_CompanyID u = c_ID c, u_ID u = userID]"
    by (auto simp: MySQLRepository_GetUserByID_def split: sum.splits if_splits
          dest: QueryRow_Inr_mem)
  then show ?thesis by auto
qed


subsection \<open>Reading an invoice of another company\<close>




subsection \<open>Creating a business partner\<close>

text \<open>
  C10. When the acting user exists, \<^verbatim>\<open>CreateBusinessPartner\<close> persists exactly one new
  business partner, whose company is the acting user's company, and whatever company the
  caller had put into the partner makes no difference to the outcome.
\<close>

theorem CreateBusinessPartner_company_of_user:
  assumes "MySQLRepository_GetUserByID r userID = Inr user"
  shows "InvoiceService_CreateBusinessPartner r stamp userID partner =
           (r\<lparr>business_partners := business_partners r @
                  [partner\<lparr>bp_CompanyID := u_CompanyID user, bp_ID := business_partners_seq r,
                           bp_CreatedAt := stamp, bp_UpdatedAt := stamp\<rparr>],
               business_partners_seq := Suc (business_partners_seq r)\<rparr>,
            Inr (partner\<lparr>bp_CompanyID := u_CompanyID user, bp_ID := business_partners_seq r,
                          bp_CreatedAt := stamp, bp_UpdatedAt := stamp\<rparr>))
         \<and> InvoiceService_CreateBusinessPartner r stamp userID (partner\<lparr>bp_CompanyID := c\<rparr>)
             = InvoiceService_CreateBusinessPartner r stamp userID partner"
  using assms GetUserByID_company [OF assms]
  by (simp add: InvoiceService_CreateBusinessPartner_def
        MySQLRepository_CreateBusinessPartner_def Let_def)

theorem CreateBusinessPartner_company_of_user_witness:
  "MySQLRepository_GetUserByID example_db 1 = Inr example_acting_user
   \<and> InvoiceService_CreateBusinessPartner example_db 50 1 (example_partner 0 2)
       = (example_db\<lparr>business_partners :=
                        [example_partner 1 1, example_partner 2 2,
                         (example_partner 3 1)\<lparr>bp_CreatedAt := 50, bp_UpdatedAt := 50\<rparr>],
                      business_partners_seq := 4\<rparr>,
          Inr ((example_partner 3 1)\<lparr>bp_CreatedAt := 50, bp_UpdatedAt := 50\<rparr>))
   \<and> InvoiceService_CreateBusinessPartner example_db 50 1
         ((example_partner 0 2)\<lparr>bp_CompanyID := 7\<rparr>)
       = InvoiceService_CreateBusinessPartner example_db 50 1 (example_partner 0 2)"
  using CreateBusinessPartner_company_of_user [OF example_GetUserByID, of 50 "example_partner 0 2" 7]
    example_GetUserByID
  by (simp add: example_defs)

subsection \<open>Creating an invoice: the success path\<close>






subsection \<open>The binade of a positive rational\<close>

text \<open>
  \<open>bitlen\<close> counts binary digits, and \<open>binade\<close> finds the power of two at or below a
  positive rational: the unit in the last place that \<open>round_double\<close> takes is the right
  one.
\<close>

lemma bitlen_bounds:
  "0 < n \<Longrightarrow> 1 \<le> bitlen n \<and> 2 ^ nat (bitlen n - 1) \<le> n \<and> n < 2 ^ nat (bitlen n)"
proof (induction n rule: bitlen.induct)
  case (1 n)
  show ?case
  proof (cases "n div 2 \<le> 0")
    case True
    with "1.prems" have "n = 1" by linarith
    then show ?thesis by (simp add: bitlen.simps)
  next
    case False
    let ?m = "n div 2" and ?b = "bitlen (n div 2)"
    from False "1.prems" "1.IH" have IH: "1 \<le> ?b" "2 ^ nat (?b - 1) \<le> ?m" "?m < 2 ^ nat ?b"
      by auto
    have bn: "bitlen n = 1 + ?b"
      using "1.prems" by (subst bitlen.simps) simp
    have p: "(2::int) ^ nat ?b = 2 * 2 ^ nat (?b - 1)"
      using IH(1) by (metis Suc_nat_eq_nat_zadd1 add.commute diff_add_cancel diff_ge_0_iff_ge power_Suc)
    have "2 * ?m \<le> n" "n < 2 * ?m + 2" by linarith+
    with IH p have "2 ^ nat ?b \<le> n" "n < 2 * 2 ^ nat ?b" by linarith+
    moreover have "nat (1 + ?b) = Suc (nat ?b)" using IH(1) by linarith
    ultimately show ?thesis using IH(1) by (simp add: bn)
  qed
qed


lemma pow2_pos: "0 < pow2 e"
  by (simp add: pow2_def)

lemma pow2_nonneg: "0 \<le> k \<Longrightarrow> pow2 k = 2 ^ nat k"
  by (simp add: pow2_def)

lemma pow2_neg: "0 \<le> k \<Longrightarrow> pow2 (- k) = 1 / 2 ^ nat k"
  by (cases "k = 0") (simp_all add: pow2_def)

lemma pow2_step: "pow2 (e + 1) = 2 * pow2 e"
proof -
  consider "0 \<le> e" | "e = - 1" | "e < - 1" by linarith
  then show ?thesis
  proof cases
    case 1
    then have "nat (e + 1) = Suc (nat e)" by linarith
    with 1 show ?thesis by (simp add: pow2_def)
  next
    case 2
    then show ?thesis by (simp add: pow2_def)
  next
    case 3
    then have "nat (- e) = Suc (nat (- (e + 1)))" by linarith
    with 3 show ?thesis by (simp add: pow2_def)
  qed
qed

lemma inverse_bounds:
  fixes a c :: rat
  assumes "0 < a" and "0 < c"
  shows "1 / a < c \<Longrightarrow> 1 / c < a" and "c \<le> 1 / a \<Longrightarrow> a \<le> 1 / c"
  using assms by (simp_all add: field_simps)

lemma binade_upper_half:
  fixes a :: rat and n k :: int
  assumes k: "1 \<le> k" "2 ^ nat (k - 1) \<le> n" "n < 2 ^ nat k"
    and a: "of_int n \<le> a" "a < of_int (n + 1)"
  shows "pow2 (k - 1) \<le> a \<and> a < pow2 k"
proof -
  have "pow2 (k - 1) = of_int (2 ^ nat (k - 1))"
    using k(1) by (simp add: pow2_nonneg)
  also have "\<dots> \<le> of_int n"
    using k(2) by (simp only: of_int_le_iff)
  finally have lo: "pow2 (k - 1) \<le> a"
    using a(1) by linarith
  from k(3) have "n + 1 \<le> 2 ^ nat k" by linarith
  then have "(of_int (n + 1) :: rat) \<le> of_int (2 ^ nat k)"
    by (simp only: of_int_le_iff)
  also have "\<dots> = pow2 k"
    using k(1) by (simp add: pow2_nonneg)
  finally have "a < pow2 k"
    using a(2) by linarith
  with lo show ?thesis by simp
qed

lemma binade_lower_half:
  fixes a :: rat and n k :: int
  assumes pos: "0 < a"
    and k: "1 \<le> k" "2 ^ nat (k - 1) \<le> n" "n < 2 ^ nat k"
    and a: "of_int n \<le> 1 / a" "1 / a < of_int (n + 1)"
  shows "pow2 (- k) < a \<and> a \<le> pow2 (1 - k)"
proof -
  have p: "(0::rat) < 2 ^ nat k" "(0::rat) < 2 ^ nat (k - 1)"
    by simp_all
  have c1: "(of_int (2 ^ nat k) :: rat) = 2 ^ nat k"
    and c2: "(of_int (2 ^ nat (k - 1)) :: rat) = 2 ^ nat (k - 1)"
    by simp_all
  from k(3) have "n + 1 \<le> 2 ^ nat k" by linarith
  then have "(of_int (n + 1) :: rat) \<le> of_int (2 ^ nat k)"
    by (simp only: of_int_le_iff)
  with a(2) have "1 / a < of_int (2 ^ nat k)"
    by (rule less_le_trans)
  then have "1 / a < 2 ^ nat k"
    unfolding c1 .
  from inverse_bounds(1) [OF pos p(1) this] have "1 / 2 ^ nat k < a" .
  moreover have "pow2 (- k) = 1 / 2 ^ nat k"
    using k(1) by (intro pow2_neg) linarith
  ultimately have lo: "pow2 (- k) < a"
    by (simp only:)
  have "(of_int (2 ^ nat (k - 1)) :: rat) \<le> of_int n"
    using k(2) by (simp only: of_int_le_iff)
  from this a(1) have "(of_int (2 ^ nat (k - 1)) :: rat) \<le> 1 / a"
    by (rule order_trans)
  then have "2 ^ nat (k - 1) \<le> 1 / a"
    unfolding c2 .
  from inverse_bounds(2) [OF pos p(2) this] have "a \<le> 1 / 2 ^ nat (k - 1)" .
  moreover have "pow2 (- (k - 1)) = 1 / 2 ^ nat (k - 1)"
    using k(1) by (intro pow2_neg) linarith
  moreover have "- (k - 1) = 1 - k"
    by linarith
  ultimately have hi: "a \<le> pow2 (1 - k)"
    by (simp only:)
  from lo hi show ?thesis ..
qed

lemma binade_bounds:
  assumes "0 < a"
  shows "pow2 (binade a) \<le> a \<and> a < pow2 (binade a + 1)"
proof (cases "1 \<le> a")
  case True
  define n where "n = \<lfloor>a\<rfloor>"
  define k where "k = bitlen n"
  from True have "0 < n" by (simp add: n_def)
  from bitlen_bounds [OF this] have k: "1 \<le> k" "2 ^ nat (k - 1) \<le> n" "n < 2 ^ nat k"
    by (auto simp: k_def)
  have a: "of_int n \<le> a" "a < of_int (n + 1)"
    unfolding n_def by (rule floor_correct [THEN conjunct1], rule floor_correct [THEN conjunct2])
  have b: "binade a = k - 1"
    using True by (simp add: binade_def k_def n_def)
  from binade_upper_half [OF k a] show ?thesis
    unfolding b by simp
next
  case False
  define n where "n = \<lfloor>1 / a\<rfloor>"
  define k where "k = bitlen n"
  from False assms have "1 \<le> 1 / a" by simp
  then have "0 < n" by (simp add: n_def)
  from bitlen_bounds [OF this] have k: "1 \<le> k" "2 ^ nat (k - 1) \<le> n" "n < 2 ^ nat k"
    by (auto simp: k_def)
  have a: "of_int n \<le> 1 / a" "1 / a < of_int (n + 1)"
    unfolding n_def by (rule floor_correct [THEN conjunct1], rule floor_correct [THEN conjunct2])
  from binade_lower_half [OF assms k a] have lo: "pow2 (- k) < a" and hi: "a \<le> pow2 (1 - k)"
    by simp_all
  have b: "binade a = (if pow2 (1 - k) \<le> a then 1 - k else - k)"
    using False by (simp add: binade_def Let_def k_def n_def)
  have s1: "pow2 (- k + 1) = pow2 (1 - k)"
    by (simp add: add.commute)
  have s2: "pow2 (1 - k + 1) = 2 * pow2 (1 - k)"
    by (rule pow2_step)
  show ?thesis
  proof (cases "pow2 (1 - k) \<le> a")
    case True
    from hi pow2_pos [of "1 - k"] have "a < 2 * pow2 (1 - k)" by linarith
    with True show ?thesis
      unfolding b s2 [symmetric] by simp
  next
    case nle: False
    with lo show ?thesis
      unfolding b by (simp add: s1)
  qed
qed

subsection \<open>Rounding to binary64\<close>

lemma pow2_powi: "pow2 e = 2 powi e"
  by (simp add: pow2_def power_int_def power_inverse [symmetric] inverse_eq_divide power_one_over)

lemma pow2_add: "pow2 (i + j) = pow2 i * pow2 j"
  by (simp add: pow2_powi power_int_add)

lemma pow2_mono: "i \<le> j \<Longrightarrow> pow2 i \<le> pow2 j"
  by (simp add: pow2_powi power_int_increasing)

lemma round_half_even_bounds:
  "\<lfloor>z\<rfloor> \<le> round_half_even z \<and> round_half_even z \<le> \<lfloor>z\<rfloor> + 1
   \<and> \<bar>of_int (round_half_even z) - z\<bar> \<le> 1 / 2"
proof -
  define f where "f = \<lfloor>z\<rfloor>"
  define d where "d = z - of_int f"
  have d: "0 \<le> d" "d < 1"
    using floor_correct [of z] by (simp_all add: d_def f_def)
  have z: "z = of_int f + d"
    by (simp add: d_def)
  have r: "round_half_even z =
             (if d < 1 / 2 then f else if 1 / 2 < d then f + 1 else if even f then f else f + 1)"
    by (simp add: round_half_even_def Let_def d_def f_def)
  consider "d < 1 / 2" | "1 / 2 < d" | "d = 1 / 2" by linarith
  then have "f \<le> round_half_even z \<and> round_half_even z \<le> f + 1
     \<and> \<bar>of_int (round_half_even z) - (of_int f + d)\<bar> \<le> 1 / 2"
  proof cases
    case 1
    with d show ?thesis unfolding r by simp
  next
    case 2
    with d show ?thesis unfolding r by simp
  next
    case 3
    then show ?thesis unfolding r by simp
  qed
  then show ?thesis
    by (simp add: d_def f_def)
qed


text \<open>
  A finite result of \<open>round_double\<close> is a binary64 value, an integer of at most 53 bits
  times a power of two that is at least \<open>2 ^ (-1074)\<close>, of magnitude below \<open>2 ^ 1024\<close>, and
  it lies within half a unit in the last place of the exact value.
\<close>

lemma round_double_Finite:
  assumes "round_double x = Finite y"
  shows "\<exists>m e. - 1074 \<le> e \<and> \<bar>m\<bar> \<le> 2 ^ 53 \<and> y = of_int m * pow2 e
           \<and> \<bar>y - x\<bar> \<le> pow2 e / 2 \<and> \<bar>y\<bar> < pow2 1024"
proof (cases "x = 0")
  case True
  with assms have "y = 0" by (simp add: round_double_def)
  with True pow2_pos [of "- 1074"] pow2_pos [of 1024] show ?thesis
    by (intro exI [of _ 0] exI [of _ "- 1074"]) simp
next
  case False
  define a where "a = \<bar>x\<bar>"
  define e where "e = max (binade a) (- 1022) - 52"
  define u where "u = pow2 e"
  define z where "z = a / u"
  define m where "m = round_half_even z"
  define y' where "y' = of_int m * u"
  have a: "0 < a" using False by (simp add: a_def)
  have u: "0 < u" by (simp add: u_def pow2_pos)
  from assms False have fin: "\<not> pow2 1024 \<le> y'" and y: "y = (if 0 < x then y' else - y')"
    by (auto simp: round_double_def Let_def a_def e_def u_def z_def m_def y'_def split: if_splits)
  have e: "- 1074 \<le> e" by (simp add: e_def)
  note rb = round_half_even_bounds [of z, folded m_def]
  have zpos: "0 < z" using a u by (simp add: z_def)
  then have "0 \<le> \<lfloor>z\<rfloor>" by simp
  with rb have m0: "0 \<le> m" by linarith
  have "a < pow2 (binade a + 1)" using binade_bounds [OF a] by simp
  also have "\<dots> \<le> pow2 (e + 53)"
    by (rule pow2_mono) (simp add: e_def)
  also have "\<dots> = u * 2 ^ 53"
    by (simp add: pow2_add u_def pow2_nonneg)
  finally have "z < 2 ^ 53"
    using u by (simp add: z_def field_simps)
  then have "z < of_int (2 ^ 53)" by simp
  then have "\<lfloor>z\<rfloor> < 2 ^ 53" by (simp only: floor_less_iff)
  with rb have m53: "m \<le> 2 ^ 53" by linarith
  have "\<bar>y' - a\<bar> = \<bar>of_int m - z\<bar> * u"
  proof -
    have "y' - a = (of_int m - z) * u"
      using u by (simp add: y'_def z_def field_simps)
    then show ?thesis using u by (simp add: abs_mult)
  qed
  also have "\<dots> \<le> 1 / 2 * u"
    using rb u by (intro mult_right_mono) simp_all
  finally have near: "\<bar>y' - a\<bar> \<le> u / 2" by simp
  have y'0: "0 \<le> y'" using m0 u by (simp add: y'_def)
  show ?thesis
  proof (cases "0 < x")
    case True
    then have "y = of_int m * pow2 e" "\<bar>y - x\<bar> \<le> pow2 e / 2" "\<bar>y\<bar> < pow2 1024"
      using y near fin y'0 by (simp_all add: y'_def u_def a_def)
    with e m0 m53 show ?thesis
      by (intro exI [of _ m] exI [of _ e]) simp
  next
    case neg: False
    with False have "x < 0" by simp
    then have "y = of_int (- m) * pow2 e" "\<bar>y - x\<bar> \<le> pow2 e / 2" "\<bar>y\<bar> < pow2 1024"
      using y near fin y'0 by (simp_all add: y'_def u_def a_def abs_if split: if_splits)
    with e m0 m53 show ?thesis
      by (intro exI [of _ "- m"] exI [of _ e]) simp
  qed
qed

subsection \<open>Evaluation of binary64 arithmetic\<close>

lemma floor_rat_divide_numeral: "\<lfloor>numeral a / numeral b :: rat\<rfloor> = numeral a div numeral b"
  by (metis floor_divide_of_int_eq of_int_numeral)



















lemma rounded_1_25:
  "math_Round (Finite (261 / 2)) = Finite 131"
  by (simp add: floor_rat_divide_numeral)





subsection \<open>Rounding\<close>


subsection \<open>The amounts of a created invoice\<close>










subsection \<open>Where the payment amount is checked\<close>




subsection \<open>The two engines are engines\<close>










subsection \<open>Listing invoices\<close>

text \<open>
  What \<^verbatim>\<open>GetInvoices\<close> does for an existing user: the filters of the request are left as
  they are, the pagination defaults are written into it, and the answer of the engine to
  the statement built from it is returned, an error wrapped twice.
\<close>

lemma GetInvoices_result:
  fixes req :: GetInvoicesRequest and r :: db and user :: User and userID :: nat
    and exec :: "invoices_query \<Rightarrow> Invoice list \<Rightarrow> error + Invoice list"
  defines "req' \<equiv> fst (InvoiceService_GetInvoices exec r userID req)"
  assumes user: "MySQLRepository_GetUserByID r userID = Inr user"
  shows "snd (InvoiceService_GetInvoices exec r userID req) =
           (case exec (invoices_statement (u_CompanyID user) req') (invoice_rows r) of
              Inl err \<Rightarrow> Inl (Wrapf ''failed to get invoices'' (Wrapf ''failed to get invoices'' err))
            | Inr rows \<Rightarrow> Inr rows)"
    and "gr_StartDate req' = gr_StartDate req"
    and "gr_EndDate req' = gr_EndDate req"
    and "gr_Status req' = gr_Status req"
    and "gr_Page req' = (if gr_Page req <s 1 then 1 else gr_Page req)"
    and "gr_Limit req' = (if gr_Limit req <s 1 then 20 else if 100 <s gr_Limit req then 100 else gr_Limit req)"
  unfolding req'_def
  by (simp_all add: InvoiceService_GetInvoices_def MySQLRepository_GetInvoicesByCompanyID_def
        user Let_def split: sum.splits)




text \<open>The listings of the example.\<close>

lemmas listing_defs = InvoiceService_GetInvoices_def MySQLRepository_GetInvoicesByCompanyID_def
  invoices_statement_def engine_with_def offset_not_negative_def limit_offset_def where_clause_def
  table_order_def invoice_rows_def Let_def word_sless_alt





lemma example_listing_far:
  "InvoiceService_GetInvoices (engine_with table_order) example_db 1
      (example_list None None None 4611686018427387905 100)
     = (example_list None None None 4611686018427387905 100,
        Inr [example_row 4 1 300 ''unprocessed'', example_row 1 1 100 ''unprocessed'',
             example_row 3 1 100 ''paid''])"
  unfolding InvoiceService_GetInvoices_def example_GetUserByID
  by (simp add: listing_defs example_defs)


subsection \<open>The order of a listing\<close>




subsection \<open>Pagination\<close>

text \<open>
  For an existing user the request leaves \<^verbatim>\<open>GetInvoices\<close> with a page of at least 1 and a
  limit between 1 and 100; the statement has a \<^verbatim>\<open>LIMIT\<close> clause with that limit, and an
  \<^verbatim>\<open>OFFSET\<close> clause unless the page is 1. As long as (page - 1) \<open>\<times>\<close> limit is below
  \<open>2 ^ 63\<close>, the window of the statement starts at that offset.
\<close>

lemma sint_offset:
  fixes page limit :: "64 word"
  assumes p: "1 \<le> sint page" and l: "1 \<le> sint limit"
    and range: "(sint page - 1) * sint limit < 2 ^ 63"
  shows "sint ((page - 1) * limit) = (sint page - 1) * sint limit"
proof -
  have up: "sint page < 2 ^ 63"
    using sint_lt [of page] by simp
  have "sint (page - 1) = signed_take_bit 63 (sint page - 1)"
    by (simp add: sint_word_ariths)
  also have "\<dots> = sint page - 1"
    using p up by (intro signed_take_bit_int_eq_self) auto
  finally have pm: "sint (page - 1) = sint page - 1" .
  have "sint ((page - 1) * limit) = signed_take_bit 63 (sint (page - 1) * sint limit)"
    by (simp add: sint_word_ariths)
  also have "\<dots> = sint (page - 1) * sint limit"
  proof (rule signed_take_bit_int_eq_self)
    have "0 \<le> sint (page - 1) * sint limit"
      using p l pm by simp
    then show "- (2 ^ 63) \<le> sint (page - 1) * sint limit"
      by simp
    show "sint (page - 1) * sint limit < 2 ^ 63"
      using range pm by simp
  qed
  finally show ?thesis using pm by simp
qed

lemma GetInvoices_pagination:
  fixes req :: GetInvoicesRequest and r :: db and user :: User and userID :: nat
    and exec :: "invoices_query \<Rightarrow> Invoice list \<Rightarrow> error + Invoice list"
  defines "req' \<equiv> fst (InvoiceService_GetInvoices exec r userID req)"
  assumes user: "MySQLRepository_GetUserByID r userID = Inr user"
  shows "1 \<le> sint (gr_Page req')"
    and "1 \<le> sint (gr_Limit req')"
    and "sint (gr_Limit req') \<le> 100"
    and "q_limit (invoices_statement c req') = Some (gr_Limit req')"
    and "q_offset (invoices_statement c req')
         = (if gr_Page req' = 1 then None else Some ((gr_Page req' - 1) * gr_Limit req'))"
    and "(sint (gr_Page req') - 1) * sint (gr_Limit req') < 2 ^ 63 \<Longrightarrow>
           limit_offset (invoices_statement c req') rows
           = take (nat (sint (gr_Limit req')))
               (drop (nat ((sint (gr_Page req') - 1) * sint (gr_Limit req'))) rows)"
proof -
  note R = GetInvoices_result(5,6) [OF user, of exec req, folded req'_def]
  show p: "1 \<le> sint (gr_Page req')"
    unfolding R by (simp add: word_sless_alt)
  show l: "1 \<le> sint (gr_Limit req')"
    unfolding R by (simp add: word_sless_alt)
  show "sint (gr_Limit req') \<le> 100"
    unfolding R by (simp add: word_sless_alt)
  show ql: "q_limit (invoices_statement c req') = Some (gr_Limit req')"
    using l by (simp add: invoices_statement_def word_sless_alt)
  have one: "gr_Page req' = 1 \<longleftrightarrow> sint (gr_Page req') = 1"
    using word_eq_iff_signed [of "gr_Page req'" 1, where ?'a = int] by simp
  show qo: "q_offset (invoices_statement c req')
         = (if gr_Page req' = 1 then None else Some ((gr_Page req' - 1) * gr_Limit req'))"
    using l p one by (auto simp: invoices_statement_def word_sless_alt)
  show "limit_offset (invoices_statement c req') rows
           = take (nat (sint (gr_Limit req')))
               (drop (nat ((sint (gr_Page req') - 1) * sint (gr_Limit req'))) rows)"
    if "(sint (gr_Page req') - 1) * sint (gr_Limit req') < 2 ^ 63"
    using sint_offset [OF p l that] one
    by (auto simp: limit_offset_def ql qo)
qed

text \<open>
  C7. The claim is that the statement applies \<^verbatim>\<open>OFFSET = (page - 1) * limit\<close>. The product
  is computed on Go's 64-bit \<^verbatim>\<open>int\<close> and wraps around: for page \<open>2 ^ 62 + 1\<close> and limit 100,
  which the normalisation leaves as they are, (page - 1) \<open>\<times>\<close> limit is 461168601842738790400,
  the offset argument of the statement is 0, and the call returns the first invoices of the
  company where the claimed offset lies beyond every row.
\<close>

theorem GetInvoices_offset_overflow:
  "InvoiceService_GetInvoices (engine_with table_order) example_db 1
      (example_list None None None 4611686018427387905 100)
     = (example_list None None None 4611686018427387905 100,
        Inr [example_row 4 1 300 ''unprocessed'', example_row 1 1 100 ''unprocessed'',
             example_row 3 1 100 ''paid''])
   \<and> q_limit (invoices_statement 1 (example_list None None None 4611686018427387905 100))
       = Some 100
   \<and> q_offset (invoices_statement 1 (example_list None None None 4611686018427387905 100))
       = Some 0
   \<and> (sint (4611686018427387905 :: 64 word) - 1) * sint (100 :: 64 word)
       = 461168601842738790400"
  unfolding example_listing_far
  by (simp add: invoices_statement_def example_list_def word_sless_alt)

end
